theory Spec2Isabelle
  imports Complex_Main
begin

section \<open>Stage-2 training script: embedding of \<^verbatim>\<open>train_stage2.py\<close>\<close>

text \<open>
  Tensors are nested lists, Python integers are \<open>int\<close>, floating-point numbers are
  idealised as \<open>real\<close>. Every exception the script can raise in the modelled code is a
  value of \<open>py_error\<close>; a computation that may raise has the type \<open>py_error + 'a\<close>.
\<close>

subsection \<open>Errors\<close>

datatype py_error = ZeroDivisionError | IndexError | RuntimeError | ValueError

definition and_then :: "py_error + 'a \<Rightarrow> ('a \<Rightarrow> py_error + 'b) \<Rightarrow> py_error + 'b" where
  "and_then m f = (case m of Inl e \<Rightarrow> Inl e | Inr x \<Rightarrow> f x)"

fun map_result :: "('a \<Rightarrow> py_error + 'b) \<Rightarrow> 'a list \<Rightarrow> py_error + 'b list" where
  "map_result f [] = Inr []"
| "map_result f (x # xs) =
     and_then (f x) (\<lambda>y. and_then (map_result f xs) (\<lambda>ys. Inr (y # ys)))"

subsection \<open>Indexing and slicing\<close>

text \<open>\<^verbatim>\<open>xs[i]\<close>: a negative index counts from the end, an index out of range raises.\<close>

definition py_get :: "'a list \<Rightarrow> int \<Rightarrow> py_error + 'a" where
  "py_get xs i =
     (if 0 \<le> i \<and> i < int (length xs) then Inr (xs ! nat i)
      else if i < 0 \<and> - int (length xs) \<le> i then Inr (xs ! nat (int (length xs) + i))
      else Inl IndexError)"

text \<open>
  The upper bound of \<^verbatim>\<open>xs[:stop:step]\<close> once clipped to the sequence: \<open>None\<close> is the
  whole sequence, a negative bound counts from the end.
\<close>

definition slice_stop :: "nat \<Rightarrow> int option \<Rightarrow> nat" where
  "slice_stop n stop =
     (case stop of
        None \<Rightarrow> n
      | Some s \<Rightarrow> if s < 0 then nat (s + int n) else min (nat s) n)"

text \<open>The positions \<open>0, step, 2 * step, ...\<close> strictly below \<open>stop\<close>.\<close>

definition slice_positions :: "nat \<Rightarrow> nat \<Rightarrow> nat list" where
  "slice_positions stop step = map (\<lambda>k. k * step) [0 ..< (stop + step - 1) div step]"

text \<open>\<^verbatim>\<open>xs[:stop:step]\<close> on a tensor: the step must be positive.\<close>

definition py_slice :: "'a list \<Rightarrow> int option \<Rightarrow> int \<Rightarrow> py_error + 'a list" where
  "py_slice xs stop step =
     (if step < 1 then Inl ValueError
      else Inr (map (\<lambda>p. xs ! p) (slice_positions (slice_stop (length xs) stop) (nat step))))"

subsection \<open>Tensor constructors\<close>

text \<open>
  \<^verbatim>\<open>torch.ones(r, c)\<close> raises on a negative dimension. The entries \<open>1.0\<close> and \<open>0.0\<close> of the
  mask and their row sums are integers, and are kept as \<open>int\<close>.
\<close>

definition ones :: "int \<Rightarrow> int \<Rightarrow> py_error + int list list" where
  "ones r c =
     (if r < 0 \<or> c < 0 then Inl RuntimeError
      else Inr (replicate (nat r) (replicate (nat c) 1)))"

text \<open>\<^verbatim>\<open>torch.tril(m, diagonal=d)\<close> keeps the entries with \<open>column - row \<le> d\<close>.\<close>

definition tril :: "int list list \<Rightarrow> int \<Rightarrow> int list list" where
  "tril m d =
     map (\<lambda>(r, row). map (\<lambda>(c, x). if int c - int r \<le> d then x else 0) (enumerate 0 row))
       (enumerate 0 m)"

subsection \<open>The arithmetic of \<^verbatim>\<open>calculate_loss\<close>\<close>

text \<open>
  \<^verbatim>\<open>int(a / b)\<close>: true division, then truncation towards zero. The quotient is taken
  exactly; a zero divisor raises.
\<close>

definition int_of_quotient :: "int \<Rightarrow> int \<Rightarrow> py_error + int" where
  "int_of_quotient a b =
     (if b = 0 then Inl ZeroDivisionError else Inr (sgn a * sgn b * (\<bar>a\<bar> div \<bar>b\<bar>)))"

text \<open>\<^verbatim>\<open>offset = max(int((batch_data['length'][i])/batch_size), 1)\<close>\<close>

definition offset :: "int \<Rightarrow> int \<Rightarrow> py_error + int" where
  "offset len batch_size = and_then (int_of_quotient len batch_size) (\<lambda>q. Inr (max q 1))"

text \<open>\<^verbatim>\<open>total_length = min(batch_size*offset, int(batch_data['length'][i])-1)\<close>\<close>

definition total_length :: "int \<Rightarrow> int \<Rightarrow> int \<Rightarrow> int" where
  "total_length batch_size off len = min (batch_size * off) (len - 1)"

text \<open>\<^verbatim>\<open>label = batch_data['target_seq_id'][i, :total_length:offset]\<close>, on row \<open>i\<close>.\<close>

definition label :: "int list \<Rightarrow> int \<Rightarrow> int \<Rightarrow> py_error + int list" where
  "label target_row tlen off = py_slice target_row (Some tlen) off"

text \<open>
  \<^verbatim>\<open>mask = torch.tril(torch.ones(total_length, total_length+2), diagonal=2)\<close>, then
  \<^verbatim>\<open>mask = mask[::offset, :]\<close>.
\<close>

definition mask :: "int \<Rightarrow> int \<Rightarrow> py_error + int list list" where
  "mask tlen off = and_then (ones tlen (tlen + 2)) (\<lambda>m. py_slice (tril m 2) None off)"

text \<open>\<^verbatim>\<open>target_value_index = (mask.sum(dim=1)-1).to(dtype=torch.int64)\<close>\<close>

definition target_value_index :: "int list list \<Rightarrow> int list" where
  "target_value_index m = map (\<lambda>row. sum_list row - 1) m"

text \<open>
  \<^verbatim>\<open>torch.cat([context_output[i, :, :], batch_data['input_seq'][i, :total_length, :]])\<close>,
  on the rows \<open>i\<close> of both tensors.
\<close>

definition ar_model_input :: "'v list \<Rightarrow> 'v list \<Rightarrow> int \<Rightarrow> py_error + 'v list" where
  "ar_model_input context_i input_row tlen =
     and_then (py_slice input_row (Some tlen) 1) (\<lambda>xs. Inr (context_i @ xs))"

text \<open>\<^verbatim>\<open>-1*F.log_softmax(x, dim=-1)\<close> on one row of logits.\<close>

definition neg_log_softmax :: "real list \<Rightarrow> real list" where
  "neg_log_softmax xs = map (\<lambda>x. - 1 * (x - ln (\<Sum>y\<leftarrow>xs. exp y))) xs"

text \<open>
  \<^verbatim>\<open>t[i0, i1, i2]\<close> with three one-dimensional index tensors: the index tensors are
  broadcast to a common length, and entry \<open>k\<close> of the result is
  \<^verbatim>\<open>t[i0[k]][i1[k]][i2[k]]\<close>, each index checked against its dimension.
\<close>

definition broadcast_len :: "nat \<Rightarrow> nat \<Rightarrow> py_error + nat" where
  "broadcast_len a b =
     (if a = b then Inr a else if a = 1 then Inr b else if b = 1 then Inr a
      else Inl IndexError)"

definition broadcast_nth :: "int list \<Rightarrow> nat \<Rightarrow> int" where
  "broadcast_nth xs k = (if length xs = 1 then xs ! 0 else xs ! k)"

definition index3 ::
  "real list list list \<Rightarrow> int list \<Rightarrow> int list \<Rightarrow> int list \<Rightarrow> py_error + real list" where
  "index3 t i0 i1 i2 =
     and_then (broadcast_len (length i0) (length i1)) (\<lambda>n01.
     and_then (broadcast_len n01 (length i2)) (\<lambda>n.
     map_result (\<lambda>k.
       and_then (py_get t (broadcast_nth i0 k)) (\<lambda>plane.
       and_then (py_get plane (broadcast_nth i1 k)) (\<lambda>row.
       py_get row (broadcast_nth i2 k)))) [0 ..< n]))"

subsection \<open>\<^verbatim>\<open>calculate_loss\<close>\<close>

text \<open>
  A batch as the collate function delivers it: the dictionary \<^verbatim>\<open>batch_data\<close> with its
  five keys. \<open>'m\<close> is the type of one map (and of one start/goal pair), \<open>'v\<close> the type of
  one embedded sequence element.
\<close>

record ('m, 'v) batch =
  bd_map :: "'m list"
  bd_start_n_goal :: "'m list"
  bd_input_seq :: "'v list list"
  bd_target_seq_id :: "int list list"
  bd_length :: "int list"

text \<open>
  The body of the loop over the trajectories (lines 32 to 45): the summand added to
  \<^verbatim>\<open>loss\<close> for trajectory \<open>i\<close>. The autoregressive model is a parameter: it maps the
  repeated input and the mask to logits, indexed by copy, sequence position and key.
\<close>

definition trajectory_loss ::
  "('v list list \<Rightarrow> int list list \<Rightarrow> py_error + real list list list) \<Rightarrow> 'v list list \<Rightarrow>
   ('m, 'v) batch \<Rightarrow> int \<Rightarrow> nat \<Rightarrow> py_error + real" where
  "trajectory_loss ar_model context_output batch_data batch_size i =
     and_then (py_get (bd_length batch_data) (int i)) (\<lambda>len.
     and_then (offset len batch_size) (\<lambda>off.
     let tlen = total_length batch_size off len in
     and_then (py_get (bd_target_seq_id batch_data) (int i)) (\<lambda>target_row.
     and_then (label target_row tlen off) (\<lambda>lab.
     let batch_size_i = length lab in
     and_then (py_get context_output (int i)) (\<lambda>context_i.
     and_then (py_get (bd_input_seq batch_data) (int i)) (\<lambda>input_row.
     and_then (ar_model_input context_i input_row tlen) (\<lambda>ar_model_input_i.
     and_then (mask tlen off) (\<lambda>m.
     and_then (ar_model (replicate batch_size_i ar_model_input_i) m) (\<lambda>tmp_output.
     let tmp_prob_output = map (map neg_log_softmax) tmp_output in
     and_then (index3 tmp_prob_output (map int [0 ..< batch_size_i]) (target_value_index m) lab)
       (\<lambda>picked. Inr (sum_list picked)))))))))))"

text \<open>The loop \<^verbatim>\<open>for i in range(total_num_trajectories): loss += ...\<close>\<close>

fun loss_loop :: "(nat \<Rightarrow> py_error + real) \<Rightarrow> nat list \<Rightarrow> real \<Rightarrow> py_error + real" where
  "loss_loop f [] loss = Inr loss"
| "loss_loop f (i # rest) loss = and_then (f i) (\<lambda>v. loss_loop f rest (loss + v))"

definition calculate_loss ::
  "'v list list \<Rightarrow> ('v list list \<Rightarrow> int list list \<Rightarrow> py_error + real list list list) \<Rightarrow>
   ('m, 'v) batch \<Rightarrow> int \<Rightarrow> py_error + real" where
  "calculate_loss context_output ar_model batch_data batch_size =
     (let total_num_trajectories = length (bd_map batch_data) in
      and_then
        (loss_loop (trajectory_loss ar_model context_output batch_data batch_size)
           [0 ..< total_num_trajectories] 0)
        (\<lambda>loss. if total_num_trajectories = 0 then Inl ZeroDivisionError
                else Inr (loss / real total_num_trajectories)))"


subsection \<open>The training session and the framework\<close>

text \<open>
  The calls the epoch drivers make on the framework, in the order they are made. A
  forward pass and a loss computation record the batch they are applied to; the loss
  computation also records the chunk count passed to \<^verbatim>\<open>calculate_loss\<close> and the scalar
  it returned.
\<close>

datatype model_id = Context_env_encoder | Ar_model

datatype ('m, 'v) event =
    Model_train model_id
  | Model_eval model_id
  | Zero_grad
  | Encoder_forward "('m, 'v) batch"
  | Calculate_loss "('m, 'v) batch" int real
  | Backward
  | Step_and_update_lr
  | No_grad_enter
  | No_grad_exit

text \<open>
  The mutable objects the drivers work on: the parameters and the mode of both models,
  the accumulated gradients, the scheduled optimizer, and the calls made so far.
\<close>

record ('p, 'o, 'g, 'm, 'v) session =
  context_params :: 'p
  ar_params :: 'p
  context_training :: bool
  ar_training :: bool
  grads :: 'g
  optimizer :: 'o
  trace :: "('m, 'v) event list"

text \<open>
  The classes imported from \<^verbatim>\<open>modules\<close> and from torch are not part of the script;
  they are parameters of the model. A forward pass is a function of the parameters, the
  mode and the input, and may raise; gradients are computed from the parameters and the
  batch; the optimizer step maps optimizer state, gradients and parameters to a new
  optimizer state and new parameters.
\<close>

record ('p, 'o, 'g, 'm, 'v, 'd) framework =
  encoder_forward :: "'p \<Rightarrow> bool \<Rightarrow> 'm list \<Rightarrow> 'm list \<Rightarrow> py_error + 'v list list"
  ar_forward :: "'p \<Rightarrow> bool \<Rightarrow> 'v list list \<Rightarrow> int list list \<Rightarrow> py_error + real list list list"
  zero_grad :: "'g \<Rightarrow> 'g"
  backward :: "'p \<Rightarrow> 'p \<Rightarrow> ('m, 'v) batch \<Rightarrow> int \<Rightarrow> 'g \<Rightarrow> 'g"
  step_and_update_lr :: "'o \<Rightarrow> 'g \<Rightarrow> 'p \<Rightarrow> 'p \<Rightarrow> 'o \<times> 'p \<times> 'p"
  state_dict :: "'p \<Rightarrow> 'd"
  optimizer_state_dict :: "'o \<Rightarrow> 'd"

definition log_event ::
  "('m, 'v) event \<Rightarrow> ('p, 'o, 'g, 'm, 'v) session \<Rightarrow> ('p, 'o, 'g, 'm, 'v) session" where
  "log_event e s = s\<lparr>trace := trace s @ [e]\<rparr>"

subsection \<open>\<^verbatim>\<open>train_epoch\<close>\<close>

text \<open>The body of the loop over the batches (lines 62 to 67).\<close>

definition train_batch ::
  "('p, 'o, 'g, 'm, 'v, 'd) framework \<Rightarrow> int \<Rightarrow> ('m, 'v) batch \<Rightarrow>
   ('p, 'o, 'g, 'm, 'v) session \<times> real \<Rightarrow> py_error + ('p, 'o, 'g, 'm, 'v) session \<times> real" where
  "train_batch fw batch_size batch_data acc =
     (let (s, total_loss) = acc;
          s1 = log_event Zero_grad (s\<lparr>grads := zero_grad fw (grads s)\<rparr>);
          s2 = log_event (Encoder_forward batch_data) s1 in
      and_then (encoder_forward fw (context_params s2) (context_training s2)
                  (bd_map batch_data) (bd_start_n_goal batch_data)) (\<lambda>context_output.
      and_then (calculate_loss context_output (ar_forward fw (ar_params s2) (ar_training s2))
                  batch_data batch_size) (\<lambda>loss.
      let s3 = log_event (Calculate_loss batch_data batch_size loss) s2;
          s4 = log_event Backward
                 (s3\<lparr>grads := backward fw (context_params s3) (ar_params s3) batch_data
                                  batch_size (grads s3)\<rparr>);
          (opt, cp, ap) = step_and_update_lr fw (optimizer s4) (grads s4)
                            (context_params s4) (ar_params s4);
          s5 = log_event Step_and_update_lr
                 (s4\<lparr>optimizer := opt, context_params := cp, ar_params := ap\<rparr>)
      in Inr (s5, total_loss + loss))))"

fun train_loop ::
  "('p, 'o, 'g, 'm, 'v, 'd) framework \<Rightarrow> int \<Rightarrow> ('m, 'v) batch list \<Rightarrow>
   ('p, 'o, 'g, 'm, 'v) session \<times> real \<Rightarrow> py_error + ('p, 'o, 'g, 'm, 'v) session \<times> real" where
  "train_loop fw batch_size [] acc = Inr acc"
| "train_loop fw batch_size (batch_data # rest) acc =
     and_then (train_batch fw batch_size batch_data acc) (train_loop fw batch_size rest)"

definition train_epoch ::
  "('p, 'o, 'g, 'm, 'v, 'd) framework \<Rightarrow> ('m, 'v) batch list \<Rightarrow> int \<Rightarrow>
   ('p, 'o, 'g, 'm, 'v) session \<Rightarrow> py_error + ('p, 'o, 'g, 'm, 'v) session \<times> real" where
  "train_epoch fw train_dataset batch_size s =
     (let s1 = log_event (Model_train Context_env_encoder) (s\<lparr>context_training := True\<rparr>);
          s2 = log_event (Model_train Ar_model) (s1\<lparr>ar_training := True\<rparr>)
      in train_loop fw batch_size train_dataset (s2, 0))"

subsection \<open>\<^verbatim>\<open>eval_epoch\<close>\<close>

text \<open>The body of the loop over the batches (lines 85 to 88).\<close>

definition eval_batch ::
  "('p, 'o, 'g, 'm, 'v, 'd) framework \<Rightarrow> int \<Rightarrow> ('m, 'v) batch \<Rightarrow>
   ('p, 'o, 'g, 'm, 'v) session \<times> real \<Rightarrow> py_error + ('p, 'o, 'g, 'm, 'v) session \<times> real" where
  "eval_batch fw batch_size batch_data acc =
     (let (s, total_loss) = acc;
          s1 = log_event No_grad_enter s;
          s2 = log_event (Encoder_forward batch_data) s1 in
      and_then (encoder_forward fw (context_params s2) (context_training s2)
                  (bd_map batch_data) (bd_start_n_goal batch_data)) (\<lambda>context_output.
      and_then (calculate_loss context_output (ar_forward fw (ar_params s2) (ar_training s2))
                  batch_data batch_size) (\<lambda>loss.
      let s3 = log_event (Calculate_loss batch_data batch_size loss) s2;
          s4 = log_event No_grad_exit s3
      in Inr (s4, total_loss + loss))))"

fun eval_loop ::
  "('p, 'o, 'g, 'm, 'v, 'd) framework \<Rightarrow> int \<Rightarrow> ('m, 'v) batch list \<Rightarrow>
   ('p, 'o, 'g, 'm, 'v) session \<times> real \<Rightarrow> py_error + ('p, 'o, 'g, 'm, 'v) session \<times> real" where
  "eval_loop fw batch_size [] acc = Inr acc"
| "eval_loop fw batch_size (batch_data # rest) acc =
     and_then (eval_batch fw batch_size batch_data acc) (eval_loop fw batch_size rest)"

definition eval_epoch ::
  "('p, 'o, 'g, 'm, 'v, 'd) framework \<Rightarrow> ('m, 'v) batch list \<Rightarrow> int \<Rightarrow>
   ('p, 'o, 'g, 'm, 'v) session \<Rightarrow> py_error + ('p, 'o, 'g, 'm, 'v) session \<times> real" where
  "eval_epoch fw eval_dataset batch_size s =
     (let s1 = log_event (Model_eval Context_env_encoder) (s\<lparr>context_training := False\<rparr>);
          s2 = log_event (Model_eval Ar_model) (s1\<lparr>ar_training := False\<rparr>)
      in eval_loop fw batch_size eval_dataset (s2, 0))"

subsection \<open>\<^verbatim>\<open>get_torch_dataloader\<close>\<close>




subsection \<open>The epoch loop of \<^verbatim>\<open>main\<close>\<close>

text \<open>\<^verbatim>\<open>str(n)\<close> for an integer, as the f-string \<^verbatim>\<open>f'model_{n}.pkl'\<close> formats it.\<close>

definition digit_char :: "nat \<Rightarrow> char" where
  "digit_char d = char_of (48 + d)"

fun str_nat :: "nat \<Rightarrow> string" where
  "str_nat n = (if n < 10 then [digit_char n] else str_nat (n div 10) @ [digit_char (n mod 10)])"

declare str_nat.simps [simp del]

definition str_int :: "int \<Rightarrow> string" where
  "str_int n = (if n < 0 then CHR ''-'' # str_nat (nat (- n)) else str_nat (nat n))"

text \<open>\<^verbatim>\<open>os.path.join(a, b)\<close> on POSIX paths.\<close>

definition osp_join :: "string \<Rightarrow> string \<Rightarrow> string" where
  "osp_join a b =
     (if b \<noteq> [] \<and> hd b = CHR ''/'' then b
      else if a = [] \<or> last a = CHR ''/'' then a @ b
      else a @ ''/'' @ b)"

text \<open>A checkpoint is the dictionary \<^verbatim>\<open>states\<close>, its entries in insertion order.\<close>

datatype 'd ckpt_value = State_dict 'd | Epoch int

type_synonym 'd checkpoint = "(string \<times> 'd ckpt_value) list"

definition states ::
  "('p, 'o, 'g, 'm, 'v, 'd) framework \<Rightarrow> ('p, 'o, 'g, 'm, 'v) session \<Rightarrow> int \<Rightarrow> 'd checkpoint" where
  "states fw s n =
     [(''context_state'', State_dict (state_dict fw (context_params s))),
      (''ar_model_state'', State_dict (state_dict fw (ar_params s))),
      (''optimizer'', State_dict (optimizer_state_dict fw (optimizer s))),
      (''epoch'', Epoch n)]"

text \<open>
  What the loop of \<^verbatim>\<open>main\<close> works on: the training session, the best evaluation loss,
  the calls of \<^verbatim>\<open>torch.save\<close> (path and dictionary) and of \<^verbatim>\<open>writer.add_scalar\<close>
  (tag, value, step), both in the order they are made.
\<close>

record ('p, 'o, 'g, 'm, 'v, 'd) run =
  models :: "('p, 'o, 'g, 'm, 'v) session"
  best_eval_loss :: real
  saved :: "(string \<times> 'd checkpoint) list"
  scalars :: "(string \<times> real \<times> int) list"

definition torch_save ::
  "'d checkpoint \<Rightarrow> string \<Rightarrow> ('p, 'o, 'g, 'm, 'v, 'd) run \<Rightarrow> ('p, 'o, 'g, 'm, 'v, 'd) run" where
  "torch_save st path r = r\<lparr>saved := saved r @ [(path, st)]\<rparr>"

definition add_scalar ::
  "string \<Rightarrow> real \<Rightarrow> int \<Rightarrow> ('p, 'o, 'g, 'm, 'v, 'd) run \<Rightarrow> ('p, 'o, 'g, 'm, 'v, 'd) run" where
  "add_scalar tag v n r = r\<lparr>scalars := scalars r @ [(tag, v, n)]\<rparr>"

text \<open>The body of the loop over the epochs (lines 211 to 236).\<close>

definition epoch ::
  "('p, 'o, 'g, 'm, 'v, 'd) framework \<Rightarrow> string \<Rightarrow> ('m, 'v) batch list \<Rightarrow> ('m, 'v) batch list \<Rightarrow>
   int \<Rightarrow> ('p, 'o, 'g, 'm, 'v, 'd) run \<Rightarrow> py_error + ('p, 'o, 'g, 'm, 'v, 'd) run" where
  "epoch fw train_model_folder train_dataset eval_dataset n r =
     and_then (train_epoch fw train_dataset 40 (models r)) (\<lambda>(s1, train_loss).
     and_then (eval_epoch fw eval_dataset 40 s1) (\<lambda>(s2, eval_loss).
     let r1 = r\<lparr>models := s2\<rparr>;
         r2 = (if (n + 1) mod 10 = 0
               then torch_save (states fw s2 n)
                      (osp_join train_model_folder (''model_'' @ str_int n @ ''.pkl'')) r1
               else r1);
         r3 = (if eval_loss < best_eval_loss r2
               then torch_save (states fw s2 n) (osp_join train_model_folder ''best_model.pkl'')
                      (r2\<lparr>best_eval_loss := eval_loss\<rparr>)
               else r2)
     in Inr (add_scalar ''Loss/test'' eval_loss n (add_scalar ''Loss/train'' train_loss n r3))))"

fun epoch_loop ::
  "('p, 'o, 'g, 'm, 'v, 'd) framework \<Rightarrow> string \<Rightarrow> ('m, 'v) batch list \<Rightarrow> ('m, 'v) batch list \<Rightarrow>
   int list \<Rightarrow> ('p, 'o, 'g, 'm, 'v, 'd) run \<Rightarrow> py_error + ('p, 'o, 'g, 'm, 'v, 'd) run" where
  "epoch_loop fw folder train_dataset eval_dataset [] r = Inr r"
| "epoch_loop fw folder train_dataset eval_dataset (n # rest) r =
     and_then (epoch fw folder train_dataset eval_dataset n r)
       (epoch_loop fw folder train_dataset eval_dataset rest)"

text \<open>
  \<^verbatim>\<open>main\<close> from line 198 on: \<^verbatim>\<open>best_eval_loss = 1e10\<close>, then the loop
  \<^verbatim>\<open>for n in range(start_epoch, num_epochs)\<close> on the session as set up (and, when
  training continues, restored) before it.
\<close>

definition main_loop ::
  "('p, 'o, 'g, 'm, 'v, 'd) framework \<Rightarrow> string \<Rightarrow> ('m, 'v) batch list \<Rightarrow> ('m, 'v) batch list \<Rightarrow>
   int \<Rightarrow> int \<Rightarrow> ('p, 'o, 'g, 'm, 'v) session \<Rightarrow> py_error + ('p, 'o, 'g, 'm, 'v, 'd) run" where
  "main_loop fw train_model_folder train_dataset eval_dataset start_epoch num_epochs s =
     epoch_loop fw train_model_folder train_dataset eval_dataset [start_epoch .. num_epochs - 1]
       \<lparr>models = s, best_eval_loss = 10 ^ 10, saved = [], scalars = []\<rparr>"

subsection \<open>Observations on a run\<close>

text \<open>The evaluation losses logged so far, in the order of the epochs.\<close>

definition eval_losses :: "('p, 'o, 'g, 'm, 'v, 'd) run \<Rightarrow> real list" where
  "eval_losses r = map (\<lambda>(tag, v, n). v) (filter (\<lambda>(tag, v, n). tag = ''Loss/test'') (scalars r))"

text \<open>The best-loss checkpoint has been written in epoch \<open>n\<close>.\<close>

definition best_written :: "string \<Rightarrow> ('p, 'o, 'g, 'm, 'v, 'd) run \<Rightarrow> int \<Rightarrow> bool" where
  "best_written train_model_folder r n =
     (\<exists>st. (osp_join train_model_folder ''best_model.pkl'', st) \<in> set (saved r) \<and>
           (''epoch'', Epoch n) \<in> set st)"

text \<open>The periodic checkpoint of epoch \<open>n\<close> has been written.\<close>

definition periodic_written :: "string \<Rightarrow> ('p, 'o, 'g, 'm, 'v, 'd) run \<Rightarrow> int \<Rightarrow> bool" where
  "periodic_written train_model_folder r n =
     (\<exists>st. (osp_join train_model_folder (''model_'' @ str_int n @ ''.pkl''), st) \<in> set (saved r) \<and>
           (''epoch'', Epoch n) \<in> set st)"

text \<open>
  A call of \<^verbatim>\<open>torch.save\<close> is a checkpoint of epoch \<open>n\<close> taken from the session \<open>s\<close>: the
  dictionary saved is \<^verbatim>\<open>states\<close> built from \<open>s\<close> and \<open>n\<close>, and the path is the periodic
  name of an epoch with \<open>(n + 1) mod 10 = 0\<close> or the best-loss name.
\<close>

definition checkpoint_of ::
  "('p, 'o, 'g, 'm, 'v, 'd) framework \<Rightarrow> string \<Rightarrow> ('p, 'o, 'g, 'm, 'v) session \<Rightarrow> int \<Rightarrow>
   string \<times> 'd checkpoint \<Rightarrow> bool" where
  "checkpoint_of fw train_model_folder s n entry \<longleftrightarrow>
     snd entry = states fw s n \<and>
     ((fst entry = osp_join train_model_folder (''model_'' @ str_int n @ ''.pkl'') \<and>
       (n + 1) mod 10 = 0) \<or>
      fst entry = osp_join train_model_folder ''best_model.pkl'')"

subsection \<open>A synthetic batch and framework\<close>

text \<open>
  A fixed batch of one trajectory of recorded length 2 over two keys, and a framework
  whose models return constant outputs, whose backward pass counts its calls in the
  gradient and whose optimizer step adds the gradient to the parameters. They are the
  concrete inputs at which the properties below are evaluated.
\<close>

definition synthetic_batch :: "(nat, nat) batch" where
  "synthetic_batch =
     \<lparr>bd_map = [0], bd_start_n_goal = [0], bd_input_seq = [[0]],
      bd_target_seq_id = [[1]], bd_length = [2]\<rparr>"

definition synthetic_framework :: "(nat, nat, nat, nat, nat, nat) framework" where
  "synthetic_framework =
     \<lparr>encoder_forward = (\<lambda>p training m sg. Inr [[0, 0]]),
      ar_forward = (\<lambda>p training x m. Inr [[[0, 0], [0, 0], [0, 0]]]),
      zero_grad = (\<lambda>g. 0),
      backward = (\<lambda>cp ap b n g. g + 1),
      step_and_update_lr = (\<lambda>opt g cp ap. (opt + 1, cp + g, ap + g)),
      state_dict = (\<lambda>p. p),
      optimizer_state_dict = (\<lambda>opt. opt)\<rparr>"

definition synthetic_session :: "(nat, nat, nat, nat, nat) session" where
  "synthetic_session =
     \<lparr>context_params = 0, ar_params = 0, context_training = False, ar_training = False,
      grads = 0, optimizer = 0, trace = []\<rparr>"

section \<open>Properties\<close>

subsection \<open>Stride, mask and index arithmetic\<close>



lemma length_slice_positions [simp]:
  "length (slice_positions stop step) = (stop + step - 1) div step"
  by (simp add: slice_positions_def)













lemma length_tril [simp]: "length (tril m d) = length m"
  by (simp add: tril_def)











subsection \<open>The loss of a batch\<close>

lemma and_then_Inr_iff:
  "and_then m f = Inr y \<longleftrightarrow> (\<exists>x. m = Inr x \<and> f x = Inr y)"
  by (cases m) (simp_all add: and_then_def)
















subsection \<open>The epoch drivers\<close>





lemma calculate_loss_synthetic:
  assumes "batch_size = 1 \<or> batch_size = 40"
  shows "calculate_loss [[0, 0]] (\<lambda>x m. Inr [[[0, 0], [0, 0], [0, 0]]]) synthetic_batch
           batch_size = Inr (ln 2)"
proof -
  have e1: "offset 2 1 = Inr 2" "offset 2 40 = Inr 1" by code_simp+
  have e2: "total_length 1 2 2 = 1" "total_length 40 1 2 = 1" by code_simp+
  have e3: "label [1] 1 2 = Inr [1]" "label [1] 1 1 = Inr [1]" by code_simp+
  have e4: "ar_model_input [0, 0 :: nat] [0] 1 = Inr [0, 0, 0]" by code_simp
  have e5: "mask 1 2 = Inr [[1, 1, 1]]" "mask 1 1 = Inr [[1, 1, 1]]" by code_simp+
  have e6: "target_value_index [[1, 1, 1]] = [2]" by code_simp
  have e7: "index3 [[[ln 2, ln 2], [ln 2, ln 2], [ln 2, ln 2]]] [0] [2] [1] = Inr [ln 2]"
    by (simp add: index3_def broadcast_len_def broadcast_nth_def and_then_def py_get_def)
  from assms show ?thesis
    by (auto simp add: calculate_loss_def trajectory_loss_def and_then_def py_get_def
        synthetic_batch_def e1 e2 e3 e4 e5 e6 e7 neg_log_softmax_def Let_def)
qed

lemma train_batch_synthetic:
  assumes "batch_size = 1 \<or> batch_size = 40"
  shows "train_batch synthetic_framework batch_size synthetic_batch (s, tot) =
     Inr (s\<lparr>context_params := context_params s + 1, ar_params := ar_params s + 1,
            grads := 1, optimizer := optimizer s + 1,
            trace := trace s @ [Zero_grad, Encoder_forward synthetic_batch,
              Calculate_loss synthetic_batch batch_size (ln 2), Backward,
              Step_and_update_lr]\<rparr>, tot + ln 2)"
  by (simp add: train_batch_def Let_def and_then_def log_event_def synthetic_framework_def
      calculate_loss_synthetic [OF assms])

lemma train_epoch_synthetic:
  assumes "batch_size = 1 \<or> batch_size = 40"
  shows "train_epoch synthetic_framework [synthetic_batch] batch_size s =
     Inr (s\<lparr>context_params := context_params s + 1, ar_params := ar_params s + 1,
            context_training := True, ar_training := True,
            grads := 1, optimizer := optimizer s + 1,
            trace := trace s @ [Model_train Context_env_encoder, Model_train Ar_model,
              Zero_grad, Encoder_forward synthetic_batch,
              Calculate_loss synthetic_batch batch_size (ln 2), Backward,
              Step_and_update_lr]\<rparr>, ln 2)"
  by (simp add: train_epoch_def Let_def and_then_def log_event_def
      train_batch_synthetic [OF assms])






lemma eval_batch_synthetic:
  assumes "batch_size = 1 \<or> batch_size = 40"
  shows "eval_batch synthetic_framework batch_size synthetic_batch (s, tot) =
     Inr (s\<lparr>trace := trace s @ [No_grad_enter, Encoder_forward synthetic_batch,
              Calculate_loss synthetic_batch batch_size (ln 2), No_grad_exit]\<rparr>, tot + ln 2)"
  by (simp add: eval_batch_def Let_def and_then_def log_event_def synthetic_framework_def
      calculate_loss_synthetic [OF assms])

lemma eval_epoch_synthetic:
  assumes "batch_size = 1 \<or> batch_size = 40"
  shows "eval_epoch synthetic_framework [synthetic_batch] batch_size s =
     Inr (s\<lparr>context_training := False, ar_training := False,
            trace := trace s @ [Model_eval Context_env_encoder, Model_eval Ar_model,
              No_grad_enter, Encoder_forward synthetic_batch,
              Calculate_loss synthetic_batch batch_size (ln 2), No_grad_exit]\<rparr>, ln 2)"
  by (simp add: eval_epoch_def Let_def and_then_def log_event_def
      eval_batch_synthetic [OF assms])


subsection \<open>The epoch loop\<close>

lemma epoch_Inr:
  assumes "epoch fw folder train_dataset eval_dataset n r = Inr r'"
  shows "\<exists>s1 train_loss eval_loss.
           train_epoch fw train_dataset 40 (models r) = Inr (s1, train_loss) \<and>
           eval_epoch fw eval_dataset 40 s1 = Inr (models r', eval_loss) \<and>
           scalars r' = scalars r @ [(''Loss/train'', train_loss, n), (''Loss/test'', eval_loss, n)] \<and>
           best_eval_loss r' = min (best_eval_loss r) eval_loss \<and>
           saved r' = saved r @
             (if (n + 1) mod 10 = 0
              then [(osp_join folder (''model_'' @ str_int n @ ''.pkl''), states fw (models r') n)]
              else []) @
             (if eval_loss < best_eval_loss r
              then [(osp_join folder ''best_model.pkl'', states fw (models r') n)] else [])"
proof (cases "train_epoch fw train_dataset 40 (models r)")
  case (Inl err)
  with assms show ?thesis by (simp add: epoch_def and_then_def)
next
  case t0: (Inr p1)
  obtain s1 train_loss where p1: "p1 = (s1, train_loss)" by (cases p1)
  show ?thesis
  proof (cases "eval_epoch fw eval_dataset 40 s1")
    case (Inl err)
    with assms t0 p1 show ?thesis by (simp add: epoch_def and_then_def)
  next
    case e0: (Inr p2)
    obtain s2 eval_loss where p2: "p2 = (s2, eval_loss)" by (cases p2)
    from assms t0 p1 e0 p2 have m: "models r' = s2"
      by (auto simp add: epoch_def and_then_def Let_def torch_save_def add_scalar_def)
    from assms t0 p1 e0 p2
    have sc: "scalars r' = scalars r @ [(''Loss/train'', train_loss, n), (''Loss/test'', eval_loss, n)]"
      by (auto simp add: epoch_def and_then_def Let_def torch_save_def add_scalar_def)
    from assms t0 p1 e0 p2 have b: "best_eval_loss r' = min (best_eval_loss r) eval_loss"
      by (auto simp add: epoch_def and_then_def Let_def torch_save_def add_scalar_def)
    from assms t0 p1 e0 p2 have sv: "saved r' = saved r @
             (if (n + 1) mod 10 = 0
              then [(osp_join folder (''model_'' @ str_int n @ ''.pkl''), states fw s2 n)]
              else []) @
             (if eval_loss < best_eval_loss r
              then [(osp_join folder ''best_model.pkl'', states fw s2 n)] else [])"
      by (auto simp add: epoch_def and_then_def Let_def torch_save_def add_scalar_def)
    from t0 p1 have t: "train_epoch fw train_dataset 40 (models r) = Inr (s1, train_loss)" by simp
    from e0 p2 have e: "eval_epoch fw eval_dataset 40 s1 = Inr (s2, eval_loss)" by simp
    show ?thesis
      apply (rule exI [of _ s1])
      apply (rule exI [of _ train_loss])
      apply (rule exI [of _ eval_loss])
      apply (simp only: m t e sc b sv)
      done
  qed
qed


lemma osp_join_model_neq_best:
  "osp_join folder (''model_'' @ x) \<noteq> osp_join folder ''best_model.pkl''"
  by (simp add: osp_join_def)

lemma epoch_in_states: "(''epoch'', Epoch m) \<in> set (states fw s n) \<longleftrightarrow> m = n"
  by (auto simp add: states_def)

lemma epoch_observed:
  assumes "epoch fw folder train_dataset eval_dataset n r = Inr r'"
  shows "\<exists>eval_loss.
           eval_losses r' = eval_losses r @ [eval_loss] \<and>
           best_eval_loss r' = min (best_eval_loss r) eval_loss \<and>
           (\<forall>m. best_written folder r' m \<longleftrightarrow>
                  best_written folder r m \<or> (m = n \<and> eval_loss < best_eval_loss r)) \<and>
           (\<forall>m. periodic_written folder r' m \<longleftrightarrow>
                  periodic_written folder r m \<or> (m = n \<and> (n + 1) mod 10 = 0))"
proof -
  from epoch_Inr [OF assms] obtain train_loss eval_loss where
    sc: "scalars r' = scalars r @ [(''Loss/train'', train_loss, n), (''Loss/test'', eval_loss, n)]"
    and b: "best_eval_loss r' = min (best_eval_loss r) eval_loss"
    and sv: "saved r' = saved r @
             (if (n + 1) mod 10 = 0
              then [(osp_join folder (''model_'' @ str_int n @ ''.pkl''), states fw (models r') n)]
              else []) @
             (if eval_loss < best_eval_loss r
              then [(osp_join folder ''best_model.pkl'', states fw (models r') n)] else [])"
    by blast
  have e: "eval_losses r' = eval_losses r @ [eval_loss]"
    by (simp add: eval_losses_def sc)
  have bw: "best_written folder r' m \<longleftrightarrow>
              best_written folder r m \<or> (m = n \<and> eval_loss < best_eval_loss r)" for m
    unfolding best_written_def sv
    using osp_join_model_neq_best [of folder "str_int n @ ''.pkl''"]
    by (auto simp add: epoch_in_states)
  have pw: "periodic_written folder r' m \<longleftrightarrow>
              periodic_written folder r m \<or> (m = n \<and> (n + 1) mod 10 = 0)" for m
    unfolding periodic_written_def sv
    using osp_join_model_neq_best [of folder "str_int m @ ''.pkl''"]
    by (auto simp add: epoch_in_states)
  show ?thesis using e b bw pw by blast
qed


lemma Min_insert_min:
  fixes a b :: real
  assumes "finite S"
  shows "Min (insert (min a b) S) = Min (insert a (insert b S))"
proof (cases "S = {}")
  case True
  then show ?thesis by simp
next
  case False
  with assms show ?thesis by (simp add: min.assoc)
qed

lemma epoch_loop_observed:
  assumes "epoch_loop fw folder train_dataset eval_dataset ns r = Inr r'"
  shows "\<exists>evs. length evs = length ns \<and> eval_losses r' = eval_losses r @ evs \<and>
     best_eval_loss r' = Min (insert (best_eval_loss r) (set evs)) \<and>
     (\<forall>m. best_written folder r' m \<longleftrightarrow>
            best_written folder r m \<or>
            (\<exists>k < length ns. ns ! k = m \<and>
                 evs ! k < Min (insert (best_eval_loss r) (set (take k evs))))) \<and>
     (\<forall>m. periodic_written folder r' m \<longleftrightarrow>
            periodic_written folder r m \<or> (m \<in> set ns \<and> (m + 1) mod 10 = 0))"
  using assms
proof (induction ns arbitrary: r)
  case Nil
  then show ?case by simp
next
  case (Cons n rest)
  from Cons.prems obtain r1 where
    step: "epoch fw folder train_dataset eval_dataset n r = Inr r1"
    and loop: "epoch_loop fw folder train_dataset eval_dataset rest r1 = Inr r'"
    by (auto simp add: and_then_Inr_iff)
  from epoch_observed [OF step] obtain el where
    s1: "eval_losses r1 = eval_losses r @ [el]"
    and s2: "best_eval_loss r1 = min (best_eval_loss r) el"
    and s3: "\<And>m. best_written folder r1 m \<longleftrightarrow>
                  best_written folder r m \<or> (m = n \<and> el < best_eval_loss r)"
    and s4: "\<And>m. periodic_written folder r1 m \<longleftrightarrow>
                  periodic_written folder r m \<or> (m = n \<and> (n + 1) mod 10 = 0)"
    by blast
  from Cons.IH [OF loop] obtain evs where
    i0: "length evs = length rest"
    and i1: "eval_losses r' = eval_losses r1 @ evs"
    and i2: "best_eval_loss r' = Min (insert (best_eval_loss r1) (set evs))"
    and i3: "\<And>m. best_written folder r' m \<longleftrightarrow>
            best_written folder r1 m \<or>
            (\<exists>k < length rest. rest ! k = m \<and>
                 evs ! k < Min (insert (best_eval_loss r1) (set (take k evs))))"
    and i4: "\<And>m. periodic_written folder r' m \<longleftrightarrow>
            periodic_written folder r1 m \<or> (m \<in> set rest \<and> (m + 1) mod 10 = 0)"
    by blast
  let ?b = "best_eval_loss r"
  have mins: "Min (insert (min ?b el) (set (take k evs))) =
              Min (insert ?b (set (take (Suc k) (el # evs))))" for k
    by (simp add: Min_insert_min)
  have a0: "length (el # evs) = length (n # rest)" using i0 by simp
  have a1: "eval_losses r' = eval_losses r @ (el # evs)" using i1 s1 by simp
  have a2: "best_eval_loss r' = Min (insert ?b (set (el # evs)))"
    using i2 s2 by (simp add: Min_insert_min)
  have a3: "best_written folder r' m \<longleftrightarrow>
            best_written folder r m \<or>
            (\<exists>k < length (n # rest). (n # rest) ! k = m \<and>
                 (el # evs) ! k < Min (insert ?b (set (take k (el # evs)))))" for m
  proof -
    have "(\<exists>k < length (n # rest). (n # rest) ! k = m \<and>
                 (el # evs) ! k < Min (insert ?b (set (take k (el # evs))))) \<longleftrightarrow>
          (n = m \<and> el < ?b) \<or>
          (\<exists>k < length rest. rest ! k = m \<and>
                 evs ! k < Min (insert ?b (set (take (Suc k) (el # evs)))))"
      (is "?L \<longleftrightarrow> ?A \<or> ?B")
    proof
      assume ?L
      then obtain k where k: "k < length (n # rest)" "(n # rest) ! k = m"
        "(el # evs) ! k < Min (insert ?b (set (take k (el # evs))))" by blast
      show "?A \<or> ?B"
      proof (cases k)
        case 0
        with k show ?thesis by simp
      next
        case (Suc k')
        with k have "k' < length rest \<and> rest ! k' = m \<and>
                 evs ! k' < Min (insert ?b (set (take (Suc k') (el # evs))))" by simp
        then show ?thesis by blast
      qed
    next
      assume "?A \<or> ?B"
      then show ?L
      proof
        assume ?A
        then have "0 < length (n # rest) \<and> (n # rest) ! 0 = m \<and>
                 (el # evs) ! 0 < Min (insert ?b (set (take 0 (el # evs))))" by simp
        then show ?L by blast
      next
        assume ?B
        then obtain k where "k < length rest" "rest ! k = m"
          "evs ! k < Min (insert ?b (set (take (Suc k) (el # evs))))" by blast
        then have "Suc k < length (n # rest) \<and> (n # rest) ! Suc k = m \<and>
                 (el # evs) ! Suc k < Min (insert ?b (set (take (Suc k) (el # evs))))" by simp
        then show ?L by blast
      qed
    qed
    then show ?thesis using i3 [of m] s3 [of m] s2 mins by auto
  qed
  have a4: "periodic_written folder r' m \<longleftrightarrow>
            periodic_written folder r m \<or> (m \<in> set (n # rest) \<and> (m + 1) mod 10 = 0)" for m
    using i4 [of m] s4 [of m] by auto
  show ?case using a0 a1 a2 a3 a4 by blast
qed





lemma epoch_synthetic:
  "\<exists>r'. epoch synthetic_framework folder [synthetic_batch] [synthetic_batch] n r = Inr r'"
  by (simp add: epoch_def train_epoch_synthetic eval_epoch_synthetic and_then_def Let_def)

lemma epoch_loop_synthetic:
  "\<exists>r'. epoch_loop synthetic_framework folder [synthetic_batch] [synthetic_batch] ns r = Inr r'"
proof (induction ns arbitrary: r)
  case Nil
  show ?case by simp
next
  case (Cons n rest)
  obtain r1 where "epoch synthetic_framework folder [synthetic_batch] [synthetic_batch] n r = Inr r1"
    using epoch_synthetic by blast
  then show ?case using Cons.IH [of r1] by (simp add: and_then_def)
qed

lemma main_loop_synthetic:
  "\<exists>r. main_loop synthetic_framework folder [synthetic_batch] [synthetic_batch]
         start_epoch num_epochs synthetic_session = Inr r"
  unfolding main_loop_def by (rule epoch_loop_synthetic)


lemma upto_decompose:
  assumes "[a .. b] = pre @ n # post"
  shows "a \<le> n \<and> n \<le> b \<and> pre @ [n] = [a .. n]"
proof -
  have "n \<in> set [a .. b]" using assms by simp
  then have an: "a \<le> n" and nb: "n \<le> b" by simp_all
  have k: "length pre < length [a .. b]" using assms by simp
  have "[a .. b] ! length pre = n" using assms by simp
  moreover have "[a .. b] ! length pre = a + int (length pre)"
    using k by (intro nth_upto) simp
  ultimately have n: "n = a + int (length pre)" by simp
  have split: "[a .. b] = [a .. n - 1] @ n # [n + 1 .. b]"
    using an nb by (rule upto_split3)
  have "length [a .. n - 1] = length pre" using n by simp
  with split assms have "pre = [a .. n - 1]" by simp
  moreover have "[a .. n] = [a .. n - 1] @ [n]" using an by (rule upto_rec2)
  ultimately show ?thesis using an nb by simp
qed

lemma epoch_saved:
  assumes "epoch fw folder train_dataset eval_dataset n r = Inr r1"
  shows "\<exists>new. saved r1 = saved r @ new \<and>
               (\<forall>entry \<in> set new. checkpoint_of fw folder (models r1) n entry)"
proof -
  from epoch_Inr [OF assms] obtain eval_loss where
    sv: "saved r1 = saved r @
             (if (n + 1) mod 10 = 0
              then [(osp_join folder (''model_'' @ str_int n @ ''.pkl''), states fw (models r1) n)]
              else []) @
             (if eval_loss < best_eval_loss r
              then [(osp_join folder ''best_model.pkl'', states fw (models r1) n)] else [])"
    by blast
  show ?thesis
    unfolding sv by (rule exI, rule conjI, rule refl) (auto simp add: checkpoint_of_def split: if_splits)
qed


lemma epoch_loop_saved:
  assumes "epoch_loop fw folder train_dataset eval_dataset ns r = Inr r'"
  shows "\<exists>new. saved r' = saved r @ new \<and>
     (\<forall>entry \<in> set new. \<exists>pre n post r_n.
        ns = pre @ n # post \<and>
        epoch_loop fw folder train_dataset eval_dataset (pre @ [n]) r = Inr r_n \<and>
        checkpoint_of fw folder (models r_n) n entry)"
  using assms
proof (induction ns arbitrary: r)
  case Nil
  then show ?case by simp
next
  case (Cons n rest)
  from Cons.prems obtain r1 where
    step: "epoch fw folder train_dataset eval_dataset n r = Inr r1"
    and loop: "epoch_loop fw folder train_dataset eval_dataset rest r1 = Inr r'"
    by (auto simp add: and_then_Inr_iff)
  from epoch_saved [OF step] obtain new1 where
    sv1: "saved r1 = saved r @ new1"
    and ent1: "\<forall>entry \<in> set new1. checkpoint_of fw folder (models r1) n entry"
    by blast
  from Cons.IH [OF loop] obtain new2 where
    sv2: "saved r' = saved r1 @ new2"
    and ent2: "\<forall>entry \<in> set new2. \<exists>pre m post r_m.
        rest = pre @ m # post \<and>
        epoch_loop fw folder train_dataset eval_dataset (pre @ [m]) r1 = Inr r_m \<and>
        checkpoint_of fw folder (models r_m) m entry"
    by blast
  have one: "epoch_loop fw folder train_dataset eval_dataset ([] @ [n]) r = Inr r1"
    using step by (simp add: and_then_def)
  have e1: "\<exists>pre m post r_m.
        n # rest = pre @ m # post \<and>
        epoch_loop fw folder train_dataset eval_dataset (pre @ [m]) r = Inr r_m \<and>
        checkpoint_of fw folder (models r_m) m entry" if "entry \<in> set new1" for entry
  proof -
    from that ent1 have "checkpoint_of fw folder (models r1) n entry" by blast
    moreover have "n # rest = [] @ n # rest" by simp
    ultimately show ?thesis using one by blast
  qed
  have e2: "\<exists>pre m post r_m.
        n # rest = pre @ m # post \<and>
        epoch_loop fw folder train_dataset eval_dataset (pre @ [m]) r = Inr r_m \<and>
        checkpoint_of fw folder (models r_m) m entry" if "entry \<in> set new2" for entry
  proof -
    from ent2 that obtain pre m post r_m where
      d: "rest = pre @ m # post"
      and l: "epoch_loop fw folder train_dataset eval_dataset (pre @ [m]) r1 = Inr r_m"
      and c: "checkpoint_of fw folder (models r_m) m entry"
      by blast
    have "n # rest = (n # pre) @ m # post" using d by simp
    moreover have "epoch_loop fw folder train_dataset eval_dataset ((n # pre) @ [m]) r = Inr r_m"
      using step l by (simp add: and_then_def)
    ultimately show ?thesis using c by blast
  qed
  have "saved r' = saved r @ (new1 @ new2)" using sv1 sv2 by simp
  moreover have "\<forall>entry \<in> set (new1 @ new2). \<exists>pre m post r_m.
        n # rest = pre @ m # post \<and>
        epoch_loop fw folder train_dataset eval_dataset (pre @ [m]) r = Inr r_m \<and>
        checkpoint_of fw folder (models r_m) m entry"
    using e1 e2 by auto
  ultimately show ?case by blast
qed

text \<open>
  Claim C7. In a run of the epoch loop that completes, every call of \<^verbatim>\<open>torch.save\<close> is
  made in some epoch \<open>n\<close> of the run; the dictionary saved has exactly the four entries
  \<^verbatim>\<open>context_state\<close>, \<^verbatim>\<open>ar_model_state\<close>, \<^verbatim>\<open>optimizer\<close> and \<^verbatim>\<open>epoch\<close>, holding the state
  of the context encoder, of the autoregressive model and of the optimizer after epoch
  \<open>n\<close> and the number \<open>n\<close>; its path is \<^verbatim>\<open>model_{n}.pkl\<close> in the log directory, in an
  epoch with \<open>(n + 1) mod 10 = 0\<close>, or \<^verbatim>\<open>best_model.pkl\<close>; and the periodic checkpoint
  of epoch \<open>n\<close> is written exactly when \<open>(n + 1) mod 10 = 0\<close>.
\<close>

theorem checkpoint_contents:
  assumes "main_loop fw folder train_dataset eval_dataset start_epoch num_epochs s = Inr r"
  shows "(\<forall>entry \<in> set (saved r). \<exists>n r_n.
            start_epoch \<le> n \<and> n < num_epochs \<and>
            main_loop fw folder train_dataset eval_dataset start_epoch (n + 1) s = Inr r_n \<and>
            snd entry =
              [(''context_state'', State_dict (state_dict fw (context_params (models r_n)))),
               (''ar_model_state'', State_dict (state_dict fw (ar_params (models r_n)))),
               (''optimizer'', State_dict (optimizer_state_dict fw (optimizer (models r_n)))),
               (''epoch'', Epoch n)] \<and>
            ((fst entry = osp_join folder (''model_'' @ str_int n @ ''.pkl'') \<and>
              (n + 1) mod 10 = 0) \<or>
             fst entry = osp_join folder ''best_model.pkl'')) \<and>
         (\<forall>n. start_epoch \<le> n \<and> n < num_epochs \<longrightarrow>
              (periodic_written folder r n \<longleftrightarrow> (n + 1) mod 10 = 0))"
proof -
  define init :: "('a, 'b, 'c, 'd, 'e, 'f) run"
    where "init = \<lparr>models = s, best_eval_loss = 10 ^ 10, saved = [], scalars = []\<rparr>"
  from assms have loop:
    "epoch_loop fw folder train_dataset eval_dataset [start_epoch .. num_epochs - 1] init = Inr r"
    by (simp add: main_loop_def init_def)
  have i_s: "saved init = []" by (simp add: init_def)
  have i_p: "\<not> periodic_written folder init n" for n
    by (simp add: init_def periodic_written_def)
  from epoch_loop_saved [OF loop] obtain new where
    sv: "saved r = saved init @ new"
    and ent: "\<forall>entry \<in> set new. \<exists>pre n post r_n.
        [start_epoch .. num_epochs - 1] = pre @ n # post \<and>
        epoch_loop fw folder train_dataset eval_dataset (pre @ [n]) init = Inr r_n \<and>
        checkpoint_of fw folder (models r_n) n entry"
    by blast
  have A: "\<forall>entry \<in> set (saved r). \<exists>n r_n.
            start_epoch \<le> n \<and> n < num_epochs \<and>
            main_loop fw folder train_dataset eval_dataset start_epoch (n + 1) s = Inr r_n \<and>
            snd entry =
              [(''context_state'', State_dict (state_dict fw (context_params (models r_n)))),
               (''ar_model_state'', State_dict (state_dict fw (ar_params (models r_n)))),
               (''optimizer'', State_dict (optimizer_state_dict fw (optimizer (models r_n)))),
               (''epoch'', Epoch n)] \<and>
            ((fst entry = osp_join folder (''model_'' @ str_int n @ ''.pkl'') \<and>
              (n + 1) mod 10 = 0) \<or>
             fst entry = osp_join folder ''best_model.pkl'')"
  proof
    fix entry
    assume "entry \<in> set (saved r)"
    with sv i_s have "entry \<in> set new" by simp
    with ent obtain pre n post r_n where
      d: "[start_epoch .. num_epochs - 1] = pre @ n # post"
      and l: "epoch_loop fw folder train_dataset eval_dataset (pre @ [n]) init = Inr r_n"
      and c: "checkpoint_of fw folder (models r_n) n entry"
      by blast
    from upto_decompose [OF d] have lo: "start_epoch \<le> n" and hi: "n < num_epochs"
      and pre: "pre @ [n] = [start_epoch .. n]"
      by simp_all
    from l pre have m: "main_loop fw folder train_dataset eval_dataset start_epoch (n + 1) s = Inr r_n"
      by (simp add: main_loop_def init_def)
    from c have c': "snd entry =
              [(''context_state'', State_dict (state_dict fw (context_params (models r_n)))),
               (''ar_model_state'', State_dict (state_dict fw (ar_params (models r_n)))),
               (''optimizer'', State_dict (optimizer_state_dict fw (optimizer (models r_n)))),
               (''epoch'', Epoch n)] \<and>
            ((fst entry = osp_join folder (''model_'' @ str_int n @ ''.pkl'') \<and>
              (n + 1) mod 10 = 0) \<or>
             fst entry = osp_join folder ''best_model.pkl'')"
      unfolding checkpoint_of_def states_def .
    show "\<exists>n r_n.
            start_epoch \<le> n \<and> n < num_epochs \<and>
            main_loop fw folder train_dataset eval_dataset start_epoch (n + 1) s = Inr r_n \<and>
            snd entry =
              [(''context_state'', State_dict (state_dict fw (context_params (models r_n)))),
               (''ar_model_state'', State_dict (state_dict fw (ar_params (models r_n)))),
               (''optimizer'', State_dict (optimizer_state_dict fw (optimizer (models r_n)))),
               (''epoch'', Epoch n)] \<and>
            ((fst entry = osp_join folder (''model_'' @ str_int n @ ''.pkl'') \<and>
              (n + 1) mod 10 = 0) \<or>
             fst entry = osp_join folder ''best_model.pkl'')"
      apply (rule exI [of _ n])
      apply (rule exI [of _ r_n])
      apply (intro conjI)
          apply (rule lo)
         apply (rule hi)
        apply (rule m)
       apply (rule conjunct1 [OF c'])
      apply (rule conjunct2 [OF c'])
      done
  qed
  from epoch_loop_observed [OF loop] obtain evs :: "real list" where
    "\<forall>m. periodic_written folder r m \<longleftrightarrow>
            periodic_written folder init m \<or>
            (m \<in> set [start_epoch .. num_epochs - 1] \<and> (m + 1) mod 10 = 0)"
    by (elim exE conjE)
  then have B: "\<forall>n. start_epoch \<le> n \<and> n < num_epochs \<longrightarrow>
              (periodic_written folder r n \<longleftrightarrow> (n + 1) mod 10 = 0)"
    using i_p by simp
  from A B show ?thesis by (rule conjI)
qed


theorem checkpoint_contents_witness:
  "\<exists>r. main_loop synthetic_framework ''log'' [synthetic_batch] [synthetic_batch] 8 10
         synthetic_session = Inr r \<and>
       periodic_written ''log'' r 9 \<and> \<not> periodic_written ''log'' r 8"
proof -
  obtain r where h: "main_loop synthetic_framework ''log'' [synthetic_batch] [synthetic_batch] 8 10
         synthetic_session = Inr r"
    using main_loop_synthetic by blast
  from checkpoint_contents [OF h]
  have "\<forall>n. 8 \<le> n \<and> n < 10 \<longrightarrow> (periodic_written ''log'' r n \<longleftrightarrow> (n + 1) mod 10 = 0)"
    by (rule conjunct2)
  then have "periodic_written ''log'' r 9" and "\<not> periodic_written ''log'' r 8"
    by simp_all
  with h show ?thesis by (intro exI conjI)
qed












end
